theory Spec2Isabelle
  imports Complex_Main
begin

section \<open>Errors and outcomes\<close>

text \<open>
  The program raises three kinds of Python exception itself: a plain \<open>Exception\<close> with a
  message (\<open>Product.sell\<close>, \<open>Inventory.add_product\<close>), the \<open>KeyError\<close> of a dictionary
  subscript or \<open>del\<close> on an absent key (\<open>sell_product\<close>, \<open>restock_product\<close>,
  \<open>load_from_file\<close>), and the \<open>ValueError\<close> of \<open>datetime.strptime\<close>. \<open>OSError\<close> is what
  \<open>open\<close> raises, \<open>AttributeError\<close> what calling \<open>is_expired\<close> on a product that is not a
  Grocery raises. \<open>Untyped_field\<close> is the one outcome that is not a Python exception: see
  \<open>from_record\<close>.
\<close>

datatype error =
    Exception string
  | KeyError string
  | ValueError
  | AttributeError
  | OSError
  | Untyped_field

text \<open>
  A method that mutates \<open>self\<close> is a function from the state before to the pair of what the
  call returns or raises (\<open>Inl\<close> the exception) and the state after; a raise leaves the
  state as the statements before it made it.
\<close>

text \<open>The error kinds of the specification, as the exceptions the code raises for them.\<close>

definition InsufficientStock :: error where
  "InsufficientStock = Exception ''Not enough stock to sell''"

definition DuplicateId :: error where
  "DuplicateId = Exception ''Duplicate product ID''"

definition UnknownProduct :: "string \<Rightarrow> error" where
  "UnknownProduct product_id = KeyError product_id"

section \<open>Dictionaries\<close>

text \<open>
  A Python \<open>dict\<close> keeps its keys unique and in insertion order: it is an association list
  with distinct keys. Assigning to a present key replaces the value where it stands,
  assigning to a new key appends, \<open>del\<close> removes the entry and raises on an absent key.
\<close>

type_synonym ('k, 'v) dict = "('k \<times> 'v) list"

definition dict_ok :: "('k, 'v) dict \<Rightarrow> bool" where
  "dict_ok d = distinct (map fst d)"

definition contains :: "('k, 'v) dict \<Rightarrow> 'k \<Rightarrow> bool" where
  "contains d k = (map_of d k \<noteq> None)"

definition getitem :: "(string, 'v) dict \<Rightarrow> string \<Rightarrow> error + 'v" where
  "getitem d k = (case map_of d k of None \<Rightarrow> Inl (KeyError k) | Some v \<Rightarrow> Inr v)"

fun setitem :: "('k, 'v) dict \<Rightarrow> 'k \<Rightarrow> 'v \<Rightarrow> ('k, 'v) dict" where
  "setitem [] k v = [(k, v)]"
| "setitem ((k', v') # d) k v = (if k' = k then (k, v) # d else (k', v') # setitem d k v)"

definition delitem :: "(string, 'v) dict \<Rightarrow> string \<Rightarrow> error + (string, 'v) dict" where
  "delitem d k =
     (if contains d k then Inr (filter (\<lambda>kv. fst kv \<noteq> k) d) else Inl (KeyError k))"

definition dict_values :: "('k, 'v) dict \<Rightarrow> 'v list" where
  "dict_values d = map snd d"

fun dict_update :: "('k, 'v) dict \<Rightarrow> ('k, 'v) dict \<Rightarrow> ('k, 'v) dict" where
  "dict_update d [] = d"
| "dict_update d ((k, v) # other) = dict_update (setitem d k v) other"

section \<open>Strings\<close>

text \<open>
  Strings are byte strings. \<open>str.lower\<close> is modelled on the ASCII letters; the bytes of any
  other character are left as they are.
\<close>

definition upper_letters :: string where
  "upper_letters = ''ABCDEFGHIJKLMNOPQRSTUVWXYZ''"

definition lower_letters :: string where
  "lower_letters = ''abcdefghijklmnopqrstuvwxyz''"

definition lower_char :: "char \<Rightarrow> char" where
  "lower_char c = (case map_of (zip upper_letters lower_letters) c of None \<Rightarrow> c | Some l \<Rightarrow> l)"

definition lower :: "string \<Rightarrow> string" where
  "lower s = map lower_char s"

text \<open>
  Equality up to case, in the words of the specification (a case-insensitive exact
  match): the two strings have the same length and, position by position, hold the same
  character or the two cases of one letter.
\<close>

definition same_letter :: "char \<Rightarrow> char \<Rightarrow> bool" where
  "same_letter c d =
     (c = d \<or> (c, d) \<in> set (zip upper_letters lower_letters)
            \<or> (d, c) \<in> set (zip upper_letters lower_letters))"

definition equal_up_to_case :: "string \<Rightarrow> string \<Rightarrow> bool" where
  "equal_up_to_case s t = list_all2 same_letter s t"

section \<open>Dates\<close>

record datetime =
  year :: nat
  month :: nat
  day :: nat
  hour :: nat
  minute :: nat
  second :: nat
  microsecond :: nat

text \<open>Naive \<open>datetime\<close> objects compare field by field, the year first.\<close>

fun lex_less :: "nat list \<Rightarrow> nat list \<Rightarrow> bool" where
  "lex_less (x # xs) (y # ys) = (x < y \<or> (x = y \<and> lex_less xs ys))"
| "lex_less _ _ = False"

definition datetime_fields :: "datetime \<Rightarrow> nat list" where
  "datetime_fields t = [year t, month t, day t, hour t, minute t, second t, microsecond t]"

definition datetime_less :: "datetime \<Rightarrow> datetime \<Rightarrow> bool" where
  "datetime_less a b = lex_less (datetime_fields a) (datetime_fields b)"

text \<open>The calendar date of a \<open>datetime\<close>, and the order of calendar dates.\<close>

definition date_of :: "datetime \<Rightarrow> nat \<times> nat \<times> nat" where
  "date_of t = (year t, month t, day t)"

definition date_before :: "nat \<times> nat \<times> nat \<Rightarrow> nat \<times> nat \<times> nat \<Rightarrow> bool" where
  "date_before a b =
     (case a of (y, m, d) \<Rightarrow> case b of (y', m', d') \<Rightarrow> lex_less [y, m, d] [y', m', d'])"

text \<open>
  \<open>datetime.strptime(s, "%Y-%m-%d")\<close> of the standard library. The format compiles to the
  pattern \<open>(\d\d\d\d)-(1[0-2]|0[1-9]|[1-9])-(3[01]|[12]\d|0[1-9]|[1-9]| [1-9])\<close>, which
  must match the whole string; the three numbers must then be a date of the calendar
  (year 1 at least, the day within the month). The result is midnight of that day.
  Anything else is a \<open>ValueError\<close>.
\<close>

definition digit_val :: "char \<Rightarrow> nat option" where
  "digit_val c = map_of (zip ''0123456789'' [0, 1, 2, 3, 4, 5, 6, 7, 8, 9]) c"

fun digits_val :: "nat \<Rightarrow> string \<Rightarrow> nat option" where
  "digits_val acc [] = Some acc"
| "digits_val acc (c # cs) =
     (case digit_val c of None \<Rightarrow> None | Some v \<Rightarrow> digits_val (10 * acc + v) cs)"

fun split_dash :: "string \<Rightarrow> string list" where
  "split_dash [] = [[]]"
| "split_dash (c # cs) =
     (if c = CHR ''-'' then [] # split_dash cs
      else (case split_dash cs of [] \<Rightarrow> [[c]] | w # ws \<Rightarrow> (c # w) # ws))"

definition parse_year :: "string \<Rightarrow> nat option" where
  "parse_year s = (if length s = 4 then digits_val 0 s else None)"

definition parse_month :: "string \<Rightarrow> nat option" where
  "parse_month s =
     (if length s = 1 \<or> length s = 2 then
        (case digits_val 0 s of
           None \<Rightarrow> None
         | Some m \<Rightarrow> if 1 \<le> m \<and> m \<le> 12 then Some m else None)
      else None)"

definition parse_day :: "string \<Rightarrow> nat option" where
  "parse_day s =
     (case s of
        [c, c'] \<Rightarrow>
          (if c = CHR '' '' then
             (case digit_val c' of None \<Rightarrow> None | Some d \<Rightarrow> if 1 \<le> d then Some d else None)
           else
             (case digits_val 0 s of
                None \<Rightarrow> None
              | Some d \<Rightarrow> if 1 \<le> d \<and> d \<le> 31 then Some d else None))
      | [c] \<Rightarrow> (case digit_val c of None \<Rightarrow> None | Some d \<Rightarrow> if 1 \<le> d then Some d else None)
      | _ \<Rightarrow> None)"

definition is_leap :: "nat \<Rightarrow> bool" where
  "is_leap y = (y mod 4 = 0 \<and> (y mod 100 \<noteq> 0 \<or> y mod 400 = 0))"

definition days_in_month :: "nat \<Rightarrow> nat \<Rightarrow> nat" where
  "days_in_month y m =
     (if m = 2 then (if is_leap y then 29 else 28)
      else if m = 4 \<or> m = 6 \<or> m = 9 \<or> m = 11 then 30 else 31)"

definition midnight :: "nat \<Rightarrow> nat \<Rightarrow> nat \<Rightarrow> datetime" where
  "midnight y m d =
     \<lparr>year = y, month = m, day = d, hour = 0, minute = 0, second = 0, microsecond = 0\<rparr>"

definition strptime :: "string \<Rightarrow> error + datetime" where
  "strptime s =
     (case split_dash s of
        [ys, ms, ds] \<Rightarrow>
          (case (parse_year ys, parse_month ms, parse_day ds) of
             (Some y, Some m, Some d) \<Rightarrow>
               if 1 \<le> y \<and> d \<le> days_in_month y m then Inr (midnight y m d)
               else Inl ValueError
           | _ \<Rightarrow> Inl ValueError)
      | _ \<Rightarrow> Inl ValueError)"

section \<open>Products\<close>

text \<open>
  The class \<open>Product\<close> and its three subclasses: the fields of the base class, and the
  subclass with its own fields. A price is the value of the Python number, \<open>int\<close> or
  \<open>float\<close>, that the field holds; it is stored, saved and loaded, and no arithmetic is
  done on it here. Quantities are Python's unbounded integers.
\<close>

datatype variant =
    Electronics (brand: string) (warranty_years: int)
  | Grocery (expiry_date: string)
  | Clothing (size_attr: string) (material: string)

record product =
  product_id :: string
  name :: string
  price :: rat
  quantity_in_stock :: int
  variant :: variant

text \<open>\<open>self.__class__.__name__\<close> and \<open>isinstance(p, Grocery)\<close>.\<close>

definition class_name :: "product \<Rightarrow> string" where
  "class_name self =
     (case variant self of
        Electronics b w \<Rightarrow> ''Electronics''
      | Grocery e \<Rightarrow> ''Grocery''
      | Clothing s m \<Rightarrow> ''Clothing'')"

definition isinstance_Grocery :: "product \<Rightarrow> bool" where
  "isinstance_Grocery p = (case variant p of Grocery e \<Rightarrow> True | _ \<Rightarrow> False)"

definition restock :: "product \<Rightarrow> int \<Rightarrow> (error + unit) \<times> product" where
  "restock self amount =
     (Inr (), self\<lparr>quantity_in_stock := quantity_in_stock self + amount\<rparr>)"

definition sell :: "product \<Rightarrow> int \<Rightarrow> (error + unit) \<times> product" where
  "sell self quantity =
     (if quantity > quantity_in_stock self
      then (Inl (Exception ''Not enough stock to sell''), self)
      else (Inr (), self\<lparr>quantity_in_stock := quantity_in_stock self - quantity\<rparr>))"

text \<open>
  \<open>get_total_value\<close> and \<open>Inventory.total_inventory_value\<close> multiply and add Python
  floats (the prices the program is given are floats): their results depend on the
  rounding of each operation and on how the interpreter's \<open>sum\<close> accumulates, which exact
  numbers do not have. They are left out of this model.
\<close>

text \<open>
  \<open>Grocery.is_expired\<close>: the expiry date, parsed to midnight of that day, against
  \<open>datetime.today()\<close>, the current local date and time, here the argument \<open>now\<close>.
\<close>

definition is_expired :: "datetime \<Rightarrow> product \<Rightarrow> error + bool" where
  "is_expired now self =
     (case variant self of
        Grocery e \<Rightarrow>
          (case strptime e of Inl err \<Rightarrow> Inl err | Inr t \<Rightarrow> Inr (datetime_less t now))
      | _ \<Rightarrow> Inl AttributeError)"

section \<open>Records and documents\<close>

text \<open>
  What \<open>json.dump\<close> writes and \<open>json.load\<close> reads back: a list of objects, each a
  dictionary from keys to strings and numbers. The two library calls are taken to be
  inverse to each other on such data, so a file holds the decoded document.
\<close>

datatype jvalue = JStr string | JInt int | JNum rat

type_synonym jrecord = "(string, jvalue) dict"

type_synonym document = "jrecord list"

definition Product_to_dict :: "product \<Rightarrow> jrecord" where
  "Product_to_dict self =
     [(''type'', JStr (class_name self)),
      (''product_id'', JStr (product_id self)),
      (''name'', JStr (name self)),
      (''price'', JNum (price self)),
      (''quantity_in_stock'', JInt (quantity_in_stock self))]"

definition to_dict :: "product \<Rightarrow> jrecord" where
  "to_dict self =
     (case variant self of
        Electronics b w \<Rightarrow>
          dict_update (Product_to_dict self) [(''brand'', JStr b), (''warranty_years'', JInt w)]
      | Grocery e \<Rightarrow>
          dict_update (Product_to_dict self) [(''expiry_date'', JStr e)]
      | Clothing s m \<Rightarrow>
          dict_update (Product_to_dict self) [(''size'', JStr s), (''material'', JStr m)])"

text \<open>Sequencing of calls that may raise: the first exception ends the evaluation.\<close>

definition and_then :: "error + 'a \<Rightarrow> ('a \<Rightarrow> error + 'b) \<Rightarrow> error + 'b" where
  "and_then r f = (case r of Inl e \<Rightarrow> Inl e | Inr x \<Rightarrow> f x)"

text \<open>
  The constructors store whatever values the record holds. The products of this model
  are typed, so a value of another JSON type than its field has no product to go to: the
  model answers \<open>Untyped_field\<close> there, where Python goes on with an ill-typed object. A
  JSON integer is a price as well as a JSON decimal is.
\<close>

definition str_field :: "jvalue \<Rightarrow> error + string" where
  "str_field v = (case v of JStr s \<Rightarrow> Inr s | _ \<Rightarrow> Inl Untyped_field)"

definition int_field :: "jvalue \<Rightarrow> error + int" where
  "int_field v = (case v of JInt n \<Rightarrow> Inr n | _ \<Rightarrow> Inl Untyped_field)"

definition num_field :: "jvalue \<Rightarrow> error + rat" where
  "num_field v = (case v of JNum x \<Rightarrow> Inr x | JInt n \<Rightarrow> Inr (of_int n) | _ \<Rightarrow> Inl Untyped_field)"

definition Product_init :: "jvalue \<Rightarrow> jvalue \<Rightarrow> jvalue \<Rightarrow> jvalue \<Rightarrow> variant \<Rightarrow> error + product" where
  "Product_init pid nm pr qty v =
     and_then (str_field pid) (\<lambda>a.
     and_then (str_field nm) (\<lambda>b.
     and_then (num_field pr) (\<lambda>c.
     and_then (int_field qty) (\<lambda>d.
       Inr \<lparr>product_id = a, name = b, price = c, quantity_in_stock = d, variant = v\<rparr>))))"

text \<open>
  The body of the loop of \<open>load_from_file\<close>: the product a record stands for, \<open>None\<close> for
  a record of an unknown type (\<open>continue\<close>), a \<open>KeyError\<close> for the first key that is
  missing, the subscripts read from left to right.
\<close>

definition from_record :: "jrecord \<Rightarrow> error + product option" where
  "from_record item =
     and_then (getitem item ''type'') (\<lambda>ptype.
       if ptype = JStr ''Electronics'' then
         and_then (getitem item ''product_id'') (\<lambda>a.
         and_then (getitem item ''name'') (\<lambda>b.
         and_then (getitem item ''price'') (\<lambda>c.
         and_then (getitem item ''quantity_in_stock'') (\<lambda>d.
         and_then (getitem item ''brand'') (\<lambda>e.
         and_then (getitem item ''warranty_years'') (\<lambda>f.
         and_then (str_field e) (\<lambda>br.
         and_then (int_field f) (\<lambda>w.
         and_then (Product_init a b c d (Electronics br w)) (\<lambda>p. Inr (Some p))))))))))
       else if ptype = JStr ''Grocery'' then
         and_then (getitem item ''product_id'') (\<lambda>a.
         and_then (getitem item ''name'') (\<lambda>b.
         and_then (getitem item ''price'') (\<lambda>c.
         and_then (getitem item ''quantity_in_stock'') (\<lambda>d.
         and_then (getitem item ''expiry_date'') (\<lambda>e.
         and_then (str_field e) (\<lambda>ex.
         and_then (Product_init a b c d (Grocery ex)) (\<lambda>p. Inr (Some p))))))))
       else if ptype = JStr ''Clothing'' then
         and_then (getitem item ''product_id'') (\<lambda>a.
         and_then (getitem item ''name'') (\<lambda>b.
         and_then (getitem item ''price'') (\<lambda>c.
         and_then (getitem item ''quantity_in_stock'') (\<lambda>d.
         and_then (getitem item ''size'') (\<lambda>e.
         and_then (getitem item ''material'') (\<lambda>f.
         and_then (str_field e) (\<lambda>sz.
         and_then (str_field f) (\<lambda>mt.
         and_then (Product_init a b c d (Clothing sz mt)) (\<lambda>p. Inr (Some p))))))))))
       else Inr None)"

text \<open>
  A well-formed document, as the specification describes the persisted format and the
  data model: every record has a \<open>type\<close> among the three names, the common keys and the
  keys of its type, each with a value of the type of its field, the numbers not negative.
  The form of the date string is left open.
\<close>

definition has_str :: "jrecord \<Rightarrow> string \<Rightarrow> bool" where
  "has_str r k = (case map_of r k of Some (JStr s) \<Rightarrow> True | _ \<Rightarrow> False)"

definition has_count :: "jrecord \<Rightarrow> string \<Rightarrow> bool" where
  "has_count r k = (case map_of r k of Some (JInt n) \<Rightarrow> 0 \<le> n | _ \<Rightarrow> False)"

definition has_amount :: "jrecord \<Rightarrow> string \<Rightarrow> bool" where
  "has_amount r k =
     (case map_of r k of Some (JNum x) \<Rightarrow> 0 \<le> x | Some (JInt n) \<Rightarrow> 0 \<le> n | _ \<Rightarrow> False)"

definition wf_record :: "jrecord \<Rightarrow> bool" where
  "wf_record r =
     (has_str r ''product_id'' \<and> has_str r ''name'' \<and> has_amount r ''price''
      \<and> has_count r ''quantity_in_stock''
      \<and> (case map_of r ''type'' of
            Some (JStr t) \<Rightarrow>
              (if t = ''Electronics'' then has_str r ''brand'' \<and> has_count r ''warranty_years''
               else if t = ''Grocery'' then has_str r ''expiry_date''
               else if t = ''Clothing'' then has_str r ''size'' \<and> has_str r ''material''
               else False)
          | _ \<Rightarrow> False))"

definition wf_document :: "document \<Rightarrow> bool" where
  "wf_document doc = list_all wf_record doc"

section \<open>The file system\<close>

text \<open>
  A file holds a JSON document or a text that \<open>json.load\<close> rejects (a \<open>JSONDecodeError\<close>,
  which is a \<open>ValueError\<close>). \<open>open(filename, "r")\<close> raises on a file that is not there,
  \<open>open(filename, "w")\<close> on a path that cannot be written.
\<close>

datatype file_content = Malformed | Json document

record filesystem =
  contents :: "string \<Rightarrow> file_content option"
  writable :: "string \<Rightarrow> bool"

section \<open>The inventory\<close>

text \<open>
  An \<open>Inventory\<close> object has the one field \<open>_products\<close>, a dictionary from product ids to
  products. A method that changes a product changes the object the dictionary holds:
  the entry is replaced where it stands.
\<close>

type_synonym inventory = "(string, product) dict"

definition add_product :: "inventory \<Rightarrow> product \<Rightarrow> (error + unit) \<times> inventory" where
  "add_product self product =
     (if contains self (product_id product)
      then (Inl (Exception ''Duplicate product ID''), self)
      else (Inr (), setitem self (product_id product) product))"

definition remove_product :: "inventory \<Rightarrow> string \<Rightarrow> (error + unit) \<times> inventory" where
  "remove_product self pid =
     (if contains self pid
      then (case delitem self pid of Inl e \<Rightarrow> (Inl e, self) | Inr d \<Rightarrow> (Inr (), d))
      else (Inr (), self))"

definition search_by_type :: "inventory \<Rightarrow> string \<Rightarrow> (error + product list) \<times> inventory" where
  "search_by_type self product_type =
     (Inr (filter (\<lambda>p. lower (class_name p) = lower product_type) (dict_values self)), self)"

definition sell_product :: "inventory \<Rightarrow> string \<Rightarrow> int \<Rightarrow> (error + unit) \<times> inventory" where
  "sell_product self pid quantity =
     (case getitem self pid of
        Inl e \<Rightarrow> (Inl e, self)
      | Inr p \<Rightarrow> (case sell p quantity of (r, p') \<Rightarrow> (r, setitem self pid p')))"

definition restock_product :: "inventory \<Rightarrow> string \<Rightarrow> int \<Rightarrow> (error + unit) \<times> inventory" where
  "restock_product self pid quantity =
     (case getitem self pid of
        Inl e \<Rightarrow> (Inl e, self)
      | Inr p \<Rightarrow> (case restock p quantity of (r, p') \<Rightarrow> (r, setitem self pid p')))"

text \<open>
  \<open>remove_expired_products\<close>: the list comprehension is evaluated in full first (an
  exception of \<open>is_expired\<close> ends it before anything is deleted), then the loop deletes.
\<close>

fun expired_ids :: "datetime \<Rightarrow> (string \<times> product) list \<Rightarrow> error + string list" where
  "expired_ids now [] = Inr []"
| "expired_ids now ((pid, p) # items) =
     (if isinstance_Grocery p then
        (case is_expired now p of
           Inl e \<Rightarrow> Inl e
         | Inr b \<Rightarrow>
             (case expired_ids now items of
                Inl e \<Rightarrow> Inl e
              | Inr pids \<Rightarrow> Inr (if b then pid # pids else pids)))
      else expired_ids now items)"

fun delete_each :: "inventory \<Rightarrow> string list \<Rightarrow> (error + unit) \<times> inventory" where
  "delete_each self [] = (Inr (), self)"
| "delete_each self (pid # pids) =
     (case delitem self pid of
        Inl e \<Rightarrow> (Inl e, self)
      | Inr d \<Rightarrow> delete_each d pids)"

definition remove_expired_products :: "datetime \<Rightarrow> inventory \<Rightarrow> (error + unit) \<times> inventory" where
  "remove_expired_products now self =
     (case expired_ids now self of
        Inl e \<Rightarrow> (Inl e, self)
      | Inr expired \<Rightarrow> delete_each self expired)"

definition save_to_file ::
  "inventory \<Rightarrow> string \<Rightarrow> filesystem \<Rightarrow> (error + unit) \<times> inventory \<times> filesystem" where
  "save_to_file self filename fs =
     (let data = map to_dict (dict_values self) in
      if writable fs filename
      then (Inr (), self, fs\<lparr>contents := (contents fs)(filename \<mapsto> Json data)\<rparr>)
      else (Inl OSError, self, fs))"

fun load_items :: "inventory \<Rightarrow> document \<Rightarrow> (error + unit) \<times> inventory" where
  "load_items self [] = (Inr (), self)"
| "load_items self (item # data) =
     (case from_record item of
        Inl e \<Rightarrow> (Inl e, self)
      | Inr None \<Rightarrow> load_items self data
      | Inr (Some p) \<Rightarrow> load_items (setitem self (product_id p) p) data)"

definition load_from_file ::
  "inventory \<Rightarrow> string \<Rightarrow> filesystem \<Rightarrow> (error + unit) \<times> inventory" where
  "load_from_file self filename fs =
     (case contents fs filename of
        None \<Rightarrow> (Inl OSError, self)
      | Some Malformed \<Rightarrow> (Inl ValueError, self)
      | Some (Json data) \<Rightarrow> load_items self data)"

section \<open>Invariants of the inventory\<close>

text \<open>
  Every product is filed under its own id (each assignment in the class is
  \<open>self._products[p._product_id] = p\<close>), and no stock is negative.
\<close>

definition keyed_by_id :: "inventory \<Rightarrow> bool" where
  "keyed_by_id self = list_all (\<lambda>kp. product_id (snd kp) = fst kp) self"

definition stock_nonneg :: "inventory \<Rightarrow> bool" where
  "stock_nonneg self = list_all (\<lambda>p. 0 \<le> quantity_in_stock p) (dict_values self)"

definition inventory_ok :: "inventory \<Rightarrow> bool" where
  "inventory_ok self = (dict_ok self \<and> keyed_by_id self)"

text \<open>
  The expiry date of every Grocery is a date that \<open>strptime\<close> accepts, as the data model
  has it (a calendar date, stored as an ISO 8601 string).
\<close>

definition expiry_dates_valid :: "inventory \<Rightarrow> bool" where
  "expiry_dates_valid self =
     list_all (\<lambda>p. case variant p of
                      Grocery e \<Rightarrow> (case strptime e of Inl err \<Rightarrow> False | Inr t \<Rightarrow> True)
                    | _ \<Rightarrow> True) (dict_values self)"

section \<open>Sample data\<close>

text \<open>The products of the scenarios of the specification, and a shop that holds them.\<close>

definition phone :: product where
  "phone = \<lparr>product_id = ''E1'', name = ''Phone'', price = 500, quantity_in_stock = 10,
     variant = Electronics ''Acme'' 2\<rparr>"

definition milk :: product where
  "milk = \<lparr>product_id = ''G1'', name = ''Milk'', price = 2, quantity_in_stock = 5,
     variant = Grocery ''2000-01-01''\<rparr>"

definition shirt :: product where
  "shirt = \<lparr>product_id = ''C1'', name = ''Shirt'', price = 20, quantity_in_stock = 3,
     variant = Clothing ''M'' ''Cotton''\<rparr>"

definition yoghurt :: product where
  "yoghurt = \<lparr>product_id = ''G2'', name = ''Yoghurt'', price = 1, quantity_in_stock = 8,
     variant = Grocery ''2030-06-15''\<rparr>"

definition shop :: inventory where
  "shop = [(''E1'', phone), (''G1'', milk), (''C1'', shirt), (''G2'', yoghurt)]"

definition noon :: datetime where
  "noon = \<lparr>year = 2026, month = 11, day = 4, hour = 12, minute = 0, second = 0,
     microsecond = 0\<rparr>"

definition cheese :: product where
  "cheese = \<lparr>product_id = ''G3'', name = ''Cheese'', price = 4, quantity_in_stock = 2,
     variant = Grocery ''2026-11-04''\<rparr>"




definition empty_disk :: filesystem where
  "empty_disk = \<lparr>contents = (\<lambda>f. None), writable = (\<lambda>f. True)\<rparr>"

definition saved_disk :: filesystem where
  "saved_disk = snd (snd (save_to_file shop ''inventory.json'' empty_disk))"

section \<open>Facts about dictionaries\<close>

lemma contains_iff: "contains d k \<longleftrightarrow> k \<in> fst ` set d"
  by (simp add: contains_def map_of_eq_None_iff)

lemma setitem_absent: "k \<notin> fst ` set d \<Longrightarrow> setitem d k v = d @ [(k, v)]"
  by (induction d) auto

lemma setitem_same: "map_of d k = Some v \<Longrightarrow> setitem d k v = d"
  by (induction d) (auto split: if_splits)

lemma map_of_setitem: "map_of (setitem d k v) k' = (if k' = k then Some v else map_of d k')"
  by (induction d) auto

lemma keys_setitem:
  "map fst (setitem d k v) = (if k \<in> fst ` set d then map fst d else map fst d @ [k])"
  by (induction d) force+

lemma set_setitem_subset: "set (setitem d k v) \<subseteq> insert (k, v) (set d)"
  by (induction d) (auto split: if_splits)

lemma getitem_absent: "\<not> contains d k \<Longrightarrow> getitem d k = Inl (KeyError k)"
  by (simp add: getitem_def contains_def)

lemma getitem_present: "map_of d k = Some v \<Longrightarrow> getitem d k = Inr v"
  by (simp add: getitem_def)

section \<open>Selling from a product\<close>

text \<open>
  Claim C1. \<open>Product.sell(q)\<close> fails with \<open>InsufficientStock\<close> exactly when \<open>q\<close> is greater
  than the stock, and then the product is unchanged; when \<open>q\<close> is at most the stock it
  succeeds and the stock goes down by \<open>q\<close>. Selling one more than the stock always fails
  and leaves the product as it was.
\<close>

theorem sell_spec:
  "(quantity > quantity_in_stock p \<longrightarrow> sell p quantity = (Inl InsufficientStock, p))
   \<and> (quantity \<le> quantity_in_stock p \<longrightarrow>
        sell p quantity = (Inr (), p\<lparr>quantity_in_stock := quantity_in_stock p - quantity\<rparr>))
   \<and> (fst (sell p quantity) = Inl InsufficientStock \<longleftrightarrow> quantity > quantity_in_stock p)
   \<and> sell p (quantity_in_stock p + 1) = (Inl InsufficientStock, p)"
  by (simp add: sell_def InsufficientStock_def)

theorem sell_spec_witness:
  "quantity_in_stock phone < 11 \<and> sell phone 11 = (Inl InsufficientStock, phone)
   \<and> 3 \<le> quantity_in_stock phone
   \<and> sell phone 3 = (Inr (), phone\<lparr>quantity_in_stock := 7\<rparr>)"
  using sell_spec [of phone 11] sell_spec [of phone 3]
  by (simp add: phone_def)

text \<open>
  Claim C10. \<open>Product.sell\<close> has no other check than \<open>quantity > stock\<close>: every quantity
  that is at most the stock, the negative ones included, is accepted and sets the stock
  to \<open>stock - quantity\<close>; a negative quantity so raises the stock by its absolute value.
\<close>

theorem sell_negative:
  "quantity \<le> quantity_in_stock p \<Longrightarrow>
     sell p quantity = (Inr (), p\<lparr>quantity_in_stock := quantity_in_stock p - quantity\<rparr>)
     \<and> (quantity < 0 \<longrightarrow>
          quantity_in_stock (snd (sell p quantity)) = quantity_in_stock p + \<bar>quantity\<bar>)"
  by (simp add: sell_def)

theorem sell_negative_witness:
  "(-4 :: int) \<le> quantity_in_stock phone \<and> (-4 :: int) < 0
   \<and> sell phone (-4) = (Inr (), phone\<lparr>quantity_in_stock := 14\<rparr>)
   \<and> quantity_in_stock (snd (sell phone (-4))) = 14"
  using sell_negative [of "-4" phone]
  by (simp add: phone_def)

section \<open>Adding, selling and restocking in the inventory\<close>

text \<open>
  Claim C2. \<open>Inventory.add_product(p)\<close> fails with \<open>DuplicateId\<close> when the id of \<open>p\<close> is a
  key of the inventory, and leaves the dictionary as it was; when the id is absent the
  product is inserted under its id (as the last entry), every other entry unchanged.
\<close>

theorem add_product_spec:
  "(contains self (product_id p) \<longrightarrow> add_product self p = (Inl DuplicateId, self))
   \<and> (\<not> contains self (product_id p) \<longrightarrow>
        add_product self p = (Inr (), self @ [(product_id p, p)])
        \<and> map_of (snd (add_product self p)) = (map_of self)(product_id p \<mapsto> p))"
proof -
  have "map_of (setitem self (product_id p) p) = (map_of self)(product_id p \<mapsto> p)"
    by (rule ext) (simp add: map_of_setitem)
  moreover have "\<not> contains self (product_id p) \<Longrightarrow>
      setitem self (product_id p) p = self @ [(product_id p, p)]"
    by (simp add: contains_iff setitem_absent)
  ultimately show ?thesis
    unfolding add_product_def DuplicateId_def by (cases "contains self (product_id p)") simp_all
qed

theorem add_product_spec_witness:
  "contains shop (product_id phone) \<and> add_product shop phone = (Inl DuplicateId, shop)
   \<and> \<not> contains [(''G1'', milk)] (product_id phone)
   \<and> add_product [(''G1'', milk)] phone = (Inr (), [(''G1'', milk), (''E1'', phone)])"
  using add_product_spec [of shop phone] add_product_spec [of "[(''G1'', milk)]" phone]
  by (simp add: contains_def shop_def phone_def)

text \<open>
  Claim C3. \<open>sell_product(id, q)\<close> and \<open>restock_product(id, q)\<close> fail with
  \<open>UnknownProduct\<close> when \<open>id\<close> is not a key, and leave the inventory as it was. When \<open>id\<close>
  is the key of a product they return what the \<open>sell\<close> or \<open>restock\<close> of that product
  returns and put the product it leaves in its place; an \<open>InsufficientStock\<close> of \<open>sell\<close>
  comes through, with the inventory unchanged.
\<close>

theorem sell_restock_product_spec:
  "(\<not> contains self pid \<longrightarrow>
      sell_product self pid quantity = (Inl (UnknownProduct pid), self)
      \<and> restock_product self pid quantity = (Inl (UnknownProduct pid), self))
   \<and> (map_of self pid = Some p \<longrightarrow>
        sell_product self pid quantity
          = (fst (sell p quantity), setitem self pid (snd (sell p quantity)))
        \<and> restock_product self pid quantity
          = (fst (restock p quantity), setitem self pid (snd (restock p quantity)))
        \<and> (quantity > quantity_in_stock p \<longrightarrow>
             sell_product self pid quantity = (Inl InsufficientStock, self)))"
  by (auto simp: sell_product_def restock_product_def getitem_absent getitem_present
      UnknownProduct_def InsufficientStock_def sell_def setitem_same split: prod.splits)

theorem sell_restock_product_spec_witness:
  "\<not> contains shop ''E9''
   \<and> sell_product shop ''E9'' 1 = (Inl (UnknownProduct ''E9''), shop)
   \<and> restock_product shop ''E9'' 1 = (Inl (UnknownProduct ''E9''), shop)
   \<and> map_of shop ''E1'' = Some phone
   \<and> sell_product shop ''E1'' 3
       = (Inr (), [(''E1'', phone\<lparr>quantity_in_stock := 7\<rparr>), (''G1'', milk), (''C1'', shirt),
                   (''G2'', yoghurt)])
   \<and> restock_product shop ''E1'' 3
       = (Inr (), [(''E1'', phone\<lparr>quantity_in_stock := 13\<rparr>), (''G1'', milk), (''C1'', shirt),
                   (''G2'', yoghurt)])
   \<and> sell_product shop ''E1'' 11 = (Inl InsufficientStock, shop)"
  using sell_restock_product_spec [of shop "''E9''" 1 phone]
    sell_restock_product_spec [of shop "''E1''" 3 phone]
    sell_restock_product_spec [of shop "''E1''" 11 phone]
  by (simp add: contains_def shop_def phone_def sell_def restock_def InsufficientStock_def)

section \<open>Searching by type\<close>

lemma table_lower:
  assumes "distinct (map fst T)" "distinct (map snd T)" "fst ` set T \<inter> snd ` set T = {}"
  shows "((case map_of T c of None \<Rightarrow> c | Some l \<Rightarrow> l) = (case map_of T d of None \<Rightarrow> d | Some l \<Rightarrow> l))
     \<longleftrightarrow> (c = d \<or> (c, d) \<in> set T \<or> (d, c) \<in> set T)"
proof -
  have inj: "\<And>a b l. (a, l) \<in> set T \<Longrightarrow> (b, l) \<in> set T \<Longrightarrow> a = b"
    using assms(2) by (metis distinct_map fst_conv inj_on_def snd_conv)
  have noloop: "\<And>a b c'. (a, b) \<in> set T \<Longrightarrow> (b, c') \<in> set T \<Longrightarrow> False"
    using assms(3) by (metis disjoint_iff fst_conv image_eqI snd_conv)
  have key: "\<And>a b b'. (a, b) \<in> set T \<Longrightarrow> map_of T a = Some b' \<Longrightarrow> b = b'"
    using assms(1) by (metis map_of_is_SomeI option.inject)
  have absent: "\<And>a b. map_of T a = None \<Longrightarrow> (a, b) \<notin> set T"
    by (metis map_of_eq_None_iff fst_conv image_eqI)
  show ?thesis
  proof (cases "map_of T c")
    case None
    note cN = None
    show ?thesis
    proof (cases "map_of T d")
      case None
      with cN absent show ?thesis by simp
    next
      case (Some l)
      then have "(d, l) \<in> set T" by (rule map_of_SomeD)
      with cN Some absent [OF cN] key [of d c l] show ?thesis by auto
    qed
  next
    case (Some l)
    note cS = Some
    then have cl: "(c, l) \<in> set T" by (rule map_of_SomeD)
    show ?thesis
    proof (cases "map_of T d")
      case None
      with cS cl absent [OF None] key [of c d l] show ?thesis by auto
    next
      case (Some l')
      then have dl: "(d, l') \<in> set T" by (rule map_of_SomeD)
      from cS Some cl dl inj [of c l d] noloop [of c d] noloop [of d c] key [of c d l] key [of d c l']
      show ?thesis by auto
    qed
  qed
qed

lemma letters_table:
  "distinct (map fst (zip upper_letters lower_letters))"
  "distinct (map snd (zip upper_letters lower_letters))"
  "fst ` set (zip upper_letters lower_letters) \<inter> snd ` set (zip upper_letters lower_letters) = {}"
  by (simp_all add: upper_letters_def lower_letters_def)

lemma lower_char_eq: "lower_char c = lower_char d \<longleftrightarrow> same_letter c d"
  unfolding lower_char_def same_letter_def by (rule table_lower [OF letters_table])

lemma lower_eq: "lower s = lower t \<longleftrightarrow> equal_up_to_case s t"
  unfolding lower_def equal_up_to_case_def
proof (induction s arbitrary: t)
  case Nil
  then show ?case by auto
next
  case (Cons c s)
  then show ?case by (cases t) (auto simp: lower_char_eq)
qed

lemma class_name_lower_inj: "lower (class_name p) = lower (class_name q) \<longleftrightarrow> class_name p = class_name q"
  by (cases "variant p"; cases "variant q")
     (simp_all add: class_name_def lower_def lower_char_def upper_letters_def lower_letters_def)

text \<open>
  Claim C9. \<open>search_by_type(s)\<close> returns, in the order of the inventory, exactly the
  products whose class name equals \<open>s\<close> up to case; the casing of \<open>s\<close> makes no
  difference; when \<open>s\<close> is the name of a variant up to case the result is the products of
  that variant and no other; the inventory is returned as it was.
\<close>

theorem search_by_type_spec:
  "search_by_type self s
     = (Inr (filter (\<lambda>p. equal_up_to_case (class_name p) s) (dict_values self)), self)
   \<and> (equal_up_to_case s s' \<longrightarrow> search_by_type self s' = search_by_type self s)
   \<and> (equal_up_to_case s (class_name q) \<longrightarrow>
        fst (search_by_type self s)
          = Inr (filter (\<lambda>p. class_name p = class_name q) (dict_values self)))"
proof -
  have "equal_up_to_case s (class_name q) \<Longrightarrow>
      lower (class_name p) = lower s \<longleftrightarrow> class_name p = class_name q" for p
    using class_name_lower_inj [of p q] by (simp add: lower_eq [symmetric])
  then show ?thesis
    by (auto simp: search_by_type_def lower_eq [symmetric])
qed

theorem search_by_type_spec_witness:
  "equal_up_to_case ''grocery'' ''GROCERY''
   \<and> search_by_type shop ''GROCERY'' = search_by_type shop ''grocery''
   \<and> equal_up_to_case ''gRoCeRy'' (class_name milk)
   \<and> fst (search_by_type shop ''gRoCeRy'') = Inr [milk, yoghurt]"
  using search_by_type_spec [of shop "''grocery''" "''GROCERY''" milk]
    search_by_type_spec [of shop "''gRoCeRy''" "''gRoCeRy''" milk]
  by (simp add: equal_up_to_case_def same_letter_def upper_letters_def lower_letters_def
      class_name_def shop_def dict_values_def phone_def milk_def shirt_def yoghurt_def)

section \<open>Expiry\<close>

text \<open>
  What \<open>is_expired\<close> computes: the parsed expiry date is midnight of its day, so it is
  before \<open>now\<close> when its day is before the day of \<open>now\<close>, and also when it is the day of
  \<open>now\<close> and any time at all has passed since midnight.
\<close>

lemma strptime_midnight: "strptime e = Inr t \<Longrightarrow> \<exists>y m d. t = midnight y m d"
  by (auto simp: strptime_def split: list.splits option.splits if_splits)

lemma datetime_less_midnight:
  "datetime_less (midnight y m d) now
     \<longleftrightarrow> date_before (y, m, d) (date_of now)
         \<or> ((y, m, d) = date_of now
             \<and> (0 < hour now \<or> 0 < minute now \<or> 0 < second now \<or> 0 < microsecond now))"
  by (auto simp: datetime_less_def datetime_fields_def midnight_def date_before_def date_of_def)

lemma is_expired_char:
  assumes "variant p = Grocery e" and "strptime e = Inr t"
  shows "is_expired now p
     = Inr (date_before (date_of t) (date_of now)
            \<or> (date_of t = date_of now
                \<and> (0 < hour now \<or> 0 < minute now \<or> 0 < second now \<or> 0 < microsecond now)))"
proof -
  obtain y m d where t: "t = midnight y m d"
    using strptime_midnight [OF assms(2)] by blast
  have "date_of t = (y, m, d)"
    by (simp add: t midnight_def date_of_def)
  then show ?thesis
    using assms by (simp add: is_expired_def t datetime_less_midnight)
qed

text \<open>
  Claim C5 says that \<open>is_expired()\<close> is true exactly when the expiry date is strictly before
  today, so that a product that expires today is not expired. The code compares midnight
  of the expiry day with the current date and time: at noon of 4 November 2026 a product
  whose expiry date is 4 November 2026 is reported expired, although its date is not
  before the date of that day.
\<close>

theorem is_expired_on_expiry_day:
  "is_expired noon cheese = Inr True
   \<and> strptime (expiry_date (variant cheese)) = Inr (midnight 2026 11 4)
   \<and> date_of noon = (2026, 11, 4)
   \<and> \<not> date_before (2026, 11, 4) (date_of noon)"
  by (simp add: is_expired_def cheese_def noon_def strptime_def parse_year_def parse_month_def
      parse_day_def digit_val_def days_in_month_def is_leap_def midnight_def datetime_less_def
      datetime_fields_def date_of_def date_before_def)

section \<open>Removing the expired\<close>


lemma is_expired_valid:
  "isinstance_Grocery p \<Longrightarrow> expiry_dates_valid [(k, p)] \<Longrightarrow> \<exists>b. is_expired now p = Inr b"
  by (cases "variant p")
     (auto simp: isinstance_Grocery_def is_expired_def expiry_dates_valid_def dict_values_def
       split: sum.splits)








text \<open>
  Where the expiry date of some Grocery is not a date, \<open>is_expired\<close> raises inside the
  comprehension, before anything is deleted: the call fails with a \<open>ValueError\<close> and the
  inventory is as it was, the expired products still in it.
\<close>

lemma strptime_error: "strptime e = Inl err \<Longrightarrow> err = ValueError"
  by (auto simp: strptime_def split: list.splits option.splits if_splits)

lemma expired_ids_invalid:
  "\<not> expiry_dates_valid items \<Longrightarrow> expired_ids now items = Inl ValueError"
proof (induction items)
  case Nil
  then show ?case by (simp add: expiry_dates_valid_def dict_values_def)
next
  case (Cons kp items)
  obtain k p where kp: "kp = (k, p)" by (cases kp)
  show ?case
  proof (cases "expiry_dates_valid [(k, p)]")
    case True
    with Cons.prems have "\<not> expiry_dates_valid items"
      by (simp add: kp expiry_dates_valid_def dict_values_def)
    then have rest: "expired_ids now items = Inl ValueError" by (rule Cons.IH)
    show ?thesis
    proof (cases "isinstance_Grocery p")
      case True
      then obtain b where "is_expired now p = Inr b"
        using is_expired_valid [OF True \<open>expiry_dates_valid [(k, p)]\<close>] by blast
      then show ?thesis using True rest by (simp add: kp)
    next
      case False
      then show ?thesis using rest by (simp add: kp)
    qed
  next
    case False
    then obtain e err where e: "variant p = Grocery e" and "strptime e = Inl err"
      by (auto simp: expiry_dates_valid_def dict_values_def split: variant.splits sum.splits)
    then have "is_expired now p = Inl ValueError"
      using strptime_error [of e err] by (simp add: is_expired_def)
    then show ?thesis using e by (simp add: kp isinstance_Grocery_def)
  qed
qed

lemma remove_expired_raises:
  "\<not> expiry_dates_valid self \<Longrightarrow> remove_expired_products now self = (Inl ValueError, self)"
  by (simp add: remove_expired_products_def expired_ids_invalid)


section \<open>Saving and loading\<close>

lemma from_record_to_dict: "from_record (to_dict p) = Inr (Some p)"
  by (cases p; cases "variant p")
     (simp_all add: to_dict_def Product_to_dict_def class_name_def from_record_def and_then_def
        getitem_def str_field_def int_field_def num_field_def Product_init_def)

lemma load_items_to_dict:
  "keyed_by_id items \<Longrightarrow> distinct (map fst (acc @ items)) \<Longrightarrow>
     load_items acc (map to_dict (dict_values items)) = (Inr (), acc @ items)"
proof (induction items arbitrary: acc)
  case Nil
  then show ?case by (simp add: dict_values_def)
next
  case (Cons kp items)
  obtain k p where kp: "kp = (k, p)" by (cases kp)
  from Cons.prems(1) have k: "product_id p = k" and rest: "keyed_by_id items"
    by (simp_all add: kp keyed_by_id_def)
  from Cons.prems(2) have "k \<notin> fst ` set acc"
    by (auto simp: kp)
  then have set: "setitem acc (product_id p) p = acc @ [(k, p)]"
    by (simp add: k setitem_absent)
  from Cons.prems(2) have "distinct (map fst ((acc @ [(k, p)]) @ items))"
    by (simp add: kp)
  from Cons.IH [OF rest this] show ?case
    by (simp add: kp dict_values_def from_record_to_dict set)
qed

text \<open>
  Claim C7. Saving an inventory and loading the file into a fresh, empty inventory gives
  the same inventory back: the same ids, in the same order, each with the product it had,
  of the same variant and with every field equal. The inventory is one that the class
  builds: its keys are distinct and each product is filed under its own id.
\<close>

theorem save_load_roundtrip:
  assumes "dict_ok self" and "keyed_by_id self" and "writable fs filename"
  shows "fst (save_to_file self filename fs) = Inr ()
    \<and> fst (snd (save_to_file self filename fs)) = self
    \<and> load_from_file [] filename (snd (snd (save_to_file self filename fs))) = (Inr (), self)"
  using assms load_items_to_dict [of self "[]"]
  by (simp add: save_to_file_def load_from_file_def dict_ok_def Let_def)

theorem save_load_roundtrip_witness:
  "dict_ok shop \<and> keyed_by_id shop \<and> writable empty_disk ''inventory.json''
   \<and> fst (save_to_file shop ''inventory.json'' empty_disk) = Inr ()
   \<and> load_from_file [] ''inventory.json''
         (snd (snd (save_to_file shop ''inventory.json'' empty_disk))) = (Inr (), shop)"
  using save_load_roundtrip [of shop empty_disk "''inventory.json''"]
  by (simp add: dict_ok_def keyed_by_id_def shop_def phone_def milk_def shirt_def yoghurt_def
      empty_disk_def)

section \<open>The stock is never negative\<close>

lemma stock_setitem:
  "stock_nonneg d \<Longrightarrow> 0 \<le> quantity_in_stock p \<Longrightarrow> stock_nonneg (setitem d k p)"
  by (induction d) (auto simp: stock_nonneg_def dict_values_def)

lemma stock_filter: "stock_nonneg d \<Longrightarrow> stock_nonneg (filter P d)"
  by (induction d) (auto simp: stock_nonneg_def dict_values_def)

lemma stock_lookup: "stock_nonneg d \<Longrightarrow> map_of d k = Some p \<Longrightarrow> 0 \<le> quantity_in_stock p"
  using map_of_SomeD [of d k p] by (fastforce simp: stock_nonneg_def dict_values_def list_all_iff)

lemma stock_add_product:
  "stock_nonneg self \<Longrightarrow> 0 \<le> quantity_in_stock p \<Longrightarrow> stock_nonneg (snd (add_product self p))"
  by (simp add: add_product_def stock_setitem)

lemma stock_remove_product: "stock_nonneg self \<Longrightarrow> stock_nonneg (snd (remove_product self pid))"
  by (simp add: remove_product_def delitem_def stock_filter)

lemma stock_sell_product:
  assumes "stock_nonneg self"
  shows "stock_nonneg (snd (sell_product self pid quantity))"
proof (cases "map_of self pid")
  case None
  then show ?thesis using assms by (simp add: sell_product_def getitem_def)
next
  case (Some p)
  then have "0 \<le> quantity_in_stock p" using assms by (rule stock_lookup [rotated])
  then have "0 \<le> quantity_in_stock (snd (sell p quantity))"
    by (simp add: sell_def)
  then show ?thesis
    using assms Some by (simp add: sell_product_def getitem_def stock_setitem case_prod_beta)
qed

lemma stock_restock_product:
  assumes "stock_nonneg self" and "0 \<le> amount"
  shows "stock_nonneg (snd (restock_product self pid amount))"
proof (cases "map_of self pid")
  case None
  then show ?thesis using assms by (simp add: restock_product_def getitem_def)
next
  case (Some p)
  then have "0 \<le> quantity_in_stock p" using assms(1) by (rule stock_lookup [rotated])
  with assms(2) have "0 \<le> quantity_in_stock (snd (restock p amount))"
    by (simp add: restock_def)
  then show ?thesis
    using assms Some by (simp add: restock_product_def getitem_def stock_setitem case_prod_beta)
qed

lemma stock_delete_each: "stock_nonneg self \<Longrightarrow> stock_nonneg (snd (delete_each self pids))"
  by (induction pids arbitrary: self) (auto simp: delitem_def stock_filter)

lemma stock_remove_expired:
  "stock_nonneg self \<Longrightarrow> stock_nonneg (snd (remove_expired_products now self))"
  by (simp add: remove_expired_products_def stock_delete_each split: sum.splits)

lemma stock_save: "stock_nonneg self \<Longrightarrow> stock_nonneg (fst (snd (save_to_file self filename fs)))"
  by (simp add: save_to_file_def Let_def)

lemma Product_init_quantity:
  "Product_init a b c d v = Inr p \<Longrightarrow> d = JInt (quantity_in_stock p)"
  by (auto simp: Product_init_def and_then_def str_field_def num_field_def int_field_def
      split: sum.splits jvalue.splits)

lemma and_then_Inr: "and_then r f = Inr y \<longleftrightarrow> (\<exists>x. r = Inr x \<and> f x = Inr y)"
  by (cases r) (simp_all add: and_then_def)

lemma from_record_Some:
  assumes "from_record r = Inr (Some p)"
  shows "\<exists>a b c d v. getitem r ''quantity_in_stock'' = Inr d \<and> Product_init a b c d v = Inr p"
  using assms
  by (simp add: from_record_def and_then_Inr split: if_splits) blast+

lemma from_record_quantity:
  assumes "from_record r = Inr (Some p)"
  shows "map_of r ''quantity_in_stock'' = Some (JInt (quantity_in_stock p))"
proof -
  from from_record_Some [OF assms] obtain a b c d v
    where d: "getitem r ''quantity_in_stock'' = Inr d" and p: "Product_init a b c d v = Inr p"
    by blast
  from d have "map_of r ''quantity_in_stock'' = Some d"
    by (simp add: getitem_def split: option.splits)
  with Product_init_quantity [OF p] show ?thesis by simp
qed

lemma stock_load_items:
  "stock_nonneg self \<Longrightarrow> wf_document doc \<Longrightarrow> stock_nonneg (snd (load_items self doc))"
proof (induction doc arbitrary: self)
  case Nil
  then show ?case by simp
next
  case (Cons r doc)
  then have wf: "wf_record r" and rest: "wf_document doc"
    by (simp_all add: wf_document_def)
  show ?case
  proof (cases "from_record r")
    case (Inl e)
    then show ?thesis using Cons.prems by simp
  next
    case (Inr po)
    show ?thesis
    proof (cases po)
      case None
      then show ?thesis using Inr Cons.IH [OF Cons.prems(1) rest] by simp
    next
      case (Some p)
      with Inr have "map_of r ''quantity_in_stock'' = Some (JInt (quantity_in_stock p))"
        by (simp add: from_record_quantity)
      with wf have "0 \<le> quantity_in_stock p"
        by (simp add: wf_record_def has_count_def)
      then have "stock_nonneg (setitem self (product_id p) p)"
        using Cons.prems(1) by (simp add: stock_setitem)
      from Cons.IH [OF this rest] show ?thesis using Inr Some by simp
    qed
  qed
qed

lemma stock_load:
  assumes "stock_nonneg self" and "\<And>doc. contents fs filename = Some (Json doc) \<Longrightarrow> wf_document doc"
  shows "stock_nonneg (snd (load_from_file self filename fs))"
  using assms by (auto simp: load_from_file_def stock_load_items split: option.splits file_content.splits)

text \<open>
  Claim C4. "No product has a negative stock" is an invariant: from a state where it
  holds, it holds after adding a product whose stock is not negative, after removing,
  after selling any quantity, after restocking an amount that is not negative, after
  removing the expired, after saving, and after loading a file that is missing, unreadable
  or a well-formed document, whether the call succeeds or raises. A sale of more than the
  stock is rejected and the inventory is as before.
\<close>

theorem stock_nonneg_invariant:
  assumes "stock_nonneg self"
  shows "(0 \<le> quantity_in_stock p \<longrightarrow> stock_nonneg (snd (add_product self p)))
    \<and> stock_nonneg (snd (remove_product self pid))
    \<and> stock_nonneg (snd (sell_product self pid quantity))
    \<and> (0 \<le> amount \<longrightarrow> stock_nonneg (snd (restock_product self pid amount)))
    \<and> stock_nonneg (snd (remove_expired_products now self))
    \<and> stock_nonneg (fst (snd (save_to_file self filename fs)))
    \<and> ((\<forall>doc. contents fs filename = Some (Json doc) \<longrightarrow> wf_document doc) \<longrightarrow>
          stock_nonneg (snd (load_from_file self filename fs)))
    \<and> (\<forall>q. map_of self pid = Some q \<and> quantity > quantity_in_stock q \<longrightarrow>
          sell_product self pid quantity = (Inl InsufficientStock, self))"
proof -
  have rejected: "sell_product self pid quantity = (Inl InsufficientStock, self)"
    if "map_of self pid = Some q" "quantity > quantity_in_stock q" for q
    using that
    by (simp add: sell_product_def getitem_def sell_def InsufficientStock_def setitem_same)
  have loaded: "(\<forall>doc. contents fs filename = Some (Json doc) \<longrightarrow> wf_document doc) \<longrightarrow>
      stock_nonneg (snd (load_from_file self filename fs))"
    using stock_load [OF assms] by blast
  show ?thesis
    using assms rejected loaded
    by (simp add: stock_add_product stock_remove_product stock_sell_product
        stock_restock_product stock_remove_expired stock_save)
qed

theorem stock_nonneg_invariant_witness:
  "stock_nonneg shop
   \<and> 0 \<le> quantity_in_stock cheese \<and> stock_nonneg (snd (add_product shop cheese))
   \<and> stock_nonneg (snd (remove_product shop ''E1''))
   \<and> stock_nonneg (snd (sell_product shop ''E1'' 11))
   \<and> stock_nonneg (snd (restock_product shop ''E1'' 5))
   \<and> stock_nonneg (snd (remove_expired_products noon shop))
   \<and> stock_nonneg (fst (snd (save_to_file shop ''inventory.json'' empty_disk)))
   \<and> contents saved_disk ''inventory.json'' = Some (Json (map to_dict (dict_values shop)))
   \<and> wf_document (map to_dict (dict_values shop))
   \<and> stock_nonneg (snd (load_from_file shop ''inventory.json'' saved_disk))
   \<and> map_of shop ''E1'' = Some phone \<and> quantity_in_stock phone < 11
   \<and> sell_product shop ''E1'' 11 = (Inl InsufficientStock, shop)"
  using stock_nonneg_invariant [where self = shop and p = cheese and pid = "''E1''"
      and quantity = 11 and amount = 5 and now = noon and filename = "''inventory.json''"
      and fs = saved_disk]
  by (simp add: stock_nonneg_def dict_values_def shop_def phone_def milk_def shirt_def
      yoghurt_def cheese_def saved_disk_def save_to_file_def empty_disk_def wf_document_def
      wf_record_def has_str_def has_count_def has_amount_def to_dict_def Product_to_dict_def
      class_name_def)

section \<open>The inventories the class builds\<close>

text \<open>
  The keys of the dictionary are distinct and every product is filed under its own id in
  the empty inventory of the constructor, and every method keeps it so, whether it
  returns or raises. These are the inventories the theorems on removing the expired and
  on saving and loading speak of.
\<close>

lemma ok_setitem:
  "inventory_ok d \<Longrightarrow> product_id p = k \<Longrightarrow> inventory_ok (setitem d k p)"
proof -
  assume ok: "inventory_ok d" and k: "product_id p = k"
  have "distinct (map fst (setitem d k p))"
    using ok by (simp add: keys_setitem inventory_ok_def dict_ok_def image_iff) 
  moreover have "keyed_by_id (setitem d k p)"
    using ok k set_setitem_subset [of d k p]
    by (auto simp: inventory_ok_def keyed_by_id_def list_all_iff)
  ultimately show ?thesis by (simp add: inventory_ok_def dict_ok_def)
qed

lemma ok_filter: "inventory_ok d \<Longrightarrow> inventory_ok (filter P d)"
  by (auto simp: inventory_ok_def dict_ok_def keyed_by_id_def list_all_iff distinct_map_filter)

lemma ok_lookup: "inventory_ok d \<Longrightarrow> map_of d k = Some p \<Longrightarrow> product_id p = k"
  using map_of_SomeD [of d k p]
  by (fastforce simp: inventory_ok_def keyed_by_id_def list_all_iff)

lemma ok_delete_each: "inventory_ok self \<Longrightarrow> inventory_ok (snd (delete_each self pids))"
  by (induction pids arbitrary: self) (auto simp: delitem_def ok_filter)

lemma ok_load_items: "inventory_ok self \<Longrightarrow> inventory_ok (snd (load_items self doc))"
proof (induction doc arbitrary: self)
  case Nil
  then show ?case by simp
next
  case (Cons r doc)
  then show ?case
    by (auto simp: ok_setitem split: sum.splits option.splits)
qed

lemma inventory_ok_reachable:
  "inventory_ok []"
  "inventory_ok self \<Longrightarrow> inventory_ok (snd (add_product self p))"
  "inventory_ok self \<Longrightarrow> inventory_ok (snd (remove_product self pid))"
  "inventory_ok self \<Longrightarrow> inventory_ok (snd (sell_product self pid quantity))"
  "inventory_ok self \<Longrightarrow> inventory_ok (snd (restock_product self pid quantity))"
  "inventory_ok self \<Longrightarrow> inventory_ok (snd (remove_expired_products now self))"
  "inventory_ok self \<Longrightarrow> inventory_ok (fst (snd (save_to_file self filename fs)))"
  "inventory_ok self \<Longrightarrow> inventory_ok (snd (load_from_file self filename fs))"
proof -
  show "inventory_ok []"
    by (simp add: inventory_ok_def dict_ok_def keyed_by_id_def)
  assume ok: "inventory_ok self"
  show "inventory_ok (snd (add_product self p))"
    using ok by (simp add: add_product_def ok_setitem)
  show "inventory_ok (snd (remove_product self pid))"
    using ok by (simp add: remove_product_def delitem_def ok_filter)
  show "inventory_ok (snd (sell_product self pid quantity))"
    using ok ok_lookup [OF ok, of pid]
    by (auto simp: sell_product_def getitem_def sell_def ok_setitem split: option.splits)
  show "inventory_ok (snd (restock_product self pid quantity))"
    using ok ok_lookup [OF ok, of pid]
    by (auto simp: restock_product_def getitem_def restock_def ok_setitem split: option.splits)
  show "inventory_ok (snd (remove_expired_products now self))"
    using ok by (simp add: remove_expired_products_def ok_delete_each split: sum.splits)
  show "inventory_ok (fst (snd (save_to_file self filename fs)))"
    using ok by (simp add: save_to_file_def Let_def)
  show "inventory_ok (snd (load_from_file self filename fs))"
    using ok by (simp add: load_from_file_def ok_load_items split: option.splits file_content.splits)
qed

lemma scenario_phone:
  "sell_product [(''E1'', phone)] ''E1'' 3 = (Inr (), [(''E1'', phone\<lparr>quantity_in_stock := 7\<rparr>)])"
  by (simp add: sell_product_def getitem_def sell_def phone_def)

end
